theory Spec2Isabelle
  imports Main "HOL-Library.Word"
begin

section \<open>The Slack notification client of slack.go\<close>

text \<open>
  The file slack.go holds one client type with five public send methods that all end in
  the private routine \<open>sendHTTPRequest\<close>. The embedding keeps the structs as records,
  the Go \<open>error\<close> results as \<open>error option\<close> (\<open>None\<close> is \<open>nil\<close>), the one field
  write of the client as an updated client in the result, and every call that leaves
  the package (the JSON encoder, the request constructor, the transport, the body reader
  and the body's \<open>Close\<close>) as an entry of a trace, in program order.
\<close>

subsection \<open>Structs\<close>

text \<open>\<open>time.Duration\<close> is an \<open>int64\<close> count of nanoseconds.\<close>

type_synonym duration = "64 word"

definition Second :: duration where
  "Second = 1000000000"

definition DefaultSlackTimeout :: duration where
  "DefaultSlackTimeout = 5 * Second"

text \<open>
  The field \<open>client\<close> is a pointer to the retrying transport: \<open>None\<close> is the nil
  pointer, \<open>Some c\<close> names a transport whose behaviour the environment gives.
\<close>

type_synonym client_ref = nat

record SlackClient =
  sc_client :: "client_ref option"
  sc_WebHookURL :: string
  sc_UserName :: string
  sc_Channel :: string
  sc_TimeOut :: duration

record SimpleSlackRequest =
  sr_Text :: string
  sr_IconEmoji :: string

record SlackJobNotification =
  job_Color :: string
  job_IconEmoji :: string
  job_Details :: string
  job_Text :: string

record Attachment =
  att_Color :: string
  att_Fallback :: string
  att_CallbackID :: string
  att_ID :: "64 word"
  att_AuthorID :: string
  att_AuthorName :: string
  att_AuthorSubname :: string
  att_AuthorLink :: string
  att_AuthorIcon :: string
  att_Title :: string
  att_TitleLink :: string
  att_Pretext :: string
  att_Text :: string
  att_ImageURL :: string
  att_ThumbURL :: string
  att_MarkdownIn :: "string list"
  att_TS :: string

record SlackMessage =
  msg_Username :: string
  msg_IconEmoji :: string
  msg_Channel :: string
  msg_Text :: string
  msg_Attachments :: "Attachment list"

text \<open>The zero value of \<open>Attachment\<close>: what a composite literal leaves unset.\<close>

definition zero_Attachment :: Attachment where
  "zero_Attachment =
     \<lparr>att_Color = [], att_Fallback = [], att_CallbackID = [], att_ID = 0,
      att_AuthorID = [], att_AuthorName = [], att_AuthorSubname = [],
      att_AuthorLink = [], att_AuthorIcon = [], att_Title = [], att_TitleLink = [],
      att_Pretext = [], att_Text = [], att_ImageURL = [], att_ThumbURL = [],
      att_MarkdownIn = [], att_TS = []\<rparr>"

subsection \<open>Errors, JSON values, requests and responses\<close>

text \<open>
  An error is either the encoder's complaint about a \<open>json.Number\<close> that is no number
  literal, or an opaque failure of one of the collaborators, carrying its message.
\<close>

datatype error = InvalidNumberLiteral string | Failure string

datatype json =
    JNull
  | JString string
  | JInt int
  | JNumber string
  | JArray "json list"
  | JObject "(string \<times> json) list"

record request =
  req_method :: string
  req_url :: string
  req_body :: json
  req_header :: "(string \<times> string) list"

text \<open>
  A response is what the routine reads of it: the pair that \<open>ioutil.ReadAll(resp.Body)\<close>
  returns, the bytes read and the read error.
\<close>

record response =
  resp_data :: string
  resp_err :: "error option"

text \<open>
  The environment of one call: the clock reading of \<open>time.Now().Unix()\<close>, the request
  constructor \<open>retryablehttp.NewRequest\<close> and the transport's \<open>Do\<close>. All three are
  parameters: nothing is assumed of them.
\<close>

record env =
  now_unix :: "64 word"
  NewRequest :: "string \<Rightarrow> string \<Rightarrow> json \<Rightarrow> error + request"
  Do :: "client_ref \<Rightarrow> request \<Rightarrow> error + response"

datatype event =
    EvMarshal SlackMessage
  | EvNewRequest string string json
  | EvAssignTimeOut duration
  | EvDo client_ref request
  | EvReadAll
  | EvClose

text \<open>
  A call either returns its \<open>error\<close> or panics (the nil transport). The result also
  holds the client as the call leaves it and the trace of the call.
\<close>

datatype outcome = Panic | Return "error option"

record result =
  ret :: outcome
  sc_after :: SlackClient
  trace :: "event list"

subsection \<open>The encoder, as the struct tags direct it\<close>

text \<open>
  \<open>json.Marshal\<close> is Go's library. What it does with a \<open>SlackMessage\<close> is fixed by
  the struct tags of slack.go: the member names, the order of the fields, and
  \<open>omitempty\<close> on every field, which drops a string or slice of length 0 and an
  integer equal to 0. A \<open>json.Number\<close> that is kept is written as a number, after the
  encoder has checked that it is a number literal (\<open>isValidNumber\<close> follows the
  library's function of that name, statement by statement). The model stops at the
  tree of members in emission order; the bytes of that tree are the library's.
\<close>

definition is_digit :: "char \<Rightarrow> bool" where
  "is_digit c = (48 \<le> (of_char c :: nat) \<and> (of_char c :: nat) \<le> 57)"

definition is_digit19 :: "char \<Rightarrow> bool" where
  "is_digit19 c = (49 \<le> (of_char c :: nat) \<and> (of_char c :: nat) \<le> 57)"

definition isValidNumber :: "string \<Rightarrow> bool" where
  "isValidNumber s0 =
     (if s0 = [] then False
      else
        let s1 = (if hd s0 = CHR ''-'' then tl s0 else s0) in
        if s1 = [] then False
        else if \<not> (hd s1 = CHR ''0'' \<or> is_digit19 (hd s1)) then False
        else
          let s2 = (if hd s1 = CHR ''0'' then tl s1 else dropWhile is_digit (tl s1));
              s3 = (if 2 \<le> length s2 \<and> s2 ! 0 = CHR ''.'' \<and> is_digit (s2 ! 1)
                    then dropWhile is_digit (drop 2 s2) else s2)
          in
            if 2 \<le> length s3 \<and> (s3 ! 0 = CHR ''e'' \<or> s3 ! 0 = CHR ''E'')
            then
              let s4 = tl s3;
                  s5 = (if hd s4 = CHR ''+'' \<or> hd s4 = CHR ''-'' then tl s4 else s4)
              in
                if (hd s4 = CHR ''+'' \<or> hd s4 = CHR ''-'') \<and> s5 = [] then False
                else dropWhile is_digit s5 = []
            else s3 = [])"

definition str_member :: "string \<Rightarrow> string \<Rightarrow> (string \<times> json) list" where
  "str_member k s = (if length s = 0 then [] else [(k, JString s)])"

definition int_member :: "string \<Rightarrow> 64 word \<Rightarrow> (string \<times> json) list" where
  "int_member k i = (if i = 0 then [] else [(k, JInt (sint i))])"

definition strs_member :: "string \<Rightarrow> string list \<Rightarrow> (string \<times> json) list" where
  "strs_member k ss = (if length ss = 0 then [] else [(k, JArray (map JString ss))])"

definition num_member :: "string \<Rightarrow> string \<Rightarrow> error + (string \<times> json) list" where
  "num_member k n =
     (if length n = 0 then Inr []
      else if isValidNumber n then Inr [(k, JNumber n)]
      else Inl (InvalidNumberLiteral n))"

definition marshal_Attachment :: "Attachment \<Rightarrow> error + json" where
  "marshal_Attachment a =
     (case num_member ''ts'' (att_TS a) of
        Inl e \<Rightarrow> Inl e
      | Inr ts \<Rightarrow>
          Inr (JObject
            (str_member ''color'' (att_Color a) @
             str_member ''fallback'' (att_Fallback a) @
             str_member ''callback_id'' (att_CallbackID a) @
             int_member ''id'' (att_ID a) @
             str_member ''author_id'' (att_AuthorID a) @
             str_member ''author_name'' (att_AuthorName a) @
             str_member ''author_subname'' (att_AuthorSubname a) @
             str_member ''author_link'' (att_AuthorLink a) @
             str_member ''author_icon'' (att_AuthorIcon a) @
             str_member ''title'' (att_Title a) @
             str_member ''title_link'' (att_TitleLink a) @
             str_member ''pretext'' (att_Pretext a) @
             str_member ''text'' (att_Text a) @
             str_member ''image_url'' (att_ImageURL a) @
             str_member ''thumb_url'' (att_ThumbURL a) @
             strs_member ''mrkdwn_in'' (att_MarkdownIn a) @
             ts)))"

fun marshal_Attachments :: "Attachment list \<Rightarrow> error + json list" where
  "marshal_Attachments [] = Inr []"
| "marshal_Attachments (a # as) =
     (case marshal_Attachment a of
        Inl e \<Rightarrow> Inl e
      | Inr j \<Rightarrow>
          (case marshal_Attachments as of
             Inl e \<Rightarrow> Inl e
           | Inr js \<Rightarrow> Inr (j # js)))"

definition atts_member :: "string \<Rightarrow> Attachment list \<Rightarrow> error + (string \<times> json) list" where
  "atts_member k as =
     (if length as = 0 then Inr []
      else (case marshal_Attachments as of
              Inl e \<Rightarrow> Inl e
            | Inr js \<Rightarrow> Inr [(k, JArray js)]))"

definition Marshal :: "SlackMessage \<Rightarrow> error + json" where
  "Marshal m =
     (case atts_member ''attachments'' (msg_Attachments m) of
        Inl e \<Rightarrow> Inl e
      | Inr atts \<Rightarrow>
          Inr (JObject
            (str_member ''username'' (msg_Username m) @
             str_member ''icon_emoji'' (msg_IconEmoji m) @
             str_member ''channel'' (msg_Channel m) @
             str_member ''text'' (msg_Text m) @
             atts)))"

subsection \<open>\<open>strconv.FormatInt\<close> in base 10\<close>

definition digit_char :: "nat \<Rightarrow> char" where
  "digit_char d = ''0123456789'' ! d"

fun digits10 :: "nat \<Rightarrow> string" where
  "digits10 n = (if n < 10 then [digit_char n] else digits10 (n div 10) @ [digit_char (n mod 10)])"

declare digits10.simps [simp del]

definition FormatInt10 :: "int \<Rightarrow> string" where
  "FormatInt10 i = (if i < 0 then CHR ''-'' # digits10 (nat (- i)) else digits10 (nat i))"

subsection \<open>The delivery routine\<close>

text \<open>
  \<open>sendHTTPRequest\<close>, line by line. The package constant \<open>ok\<close>, the success marker,
  is declared outside slack.go and is the parameter \<open>ok\<close>. The variable \<open>err\<close> of
  the source is the read error \<open>resp_err resp\<close> from line 149 on, and line 158 returns
  that variable. The deferred \<open>Close\<close> is registered on line 155, after the return of
  line 151, and runs when the routine leaves through line 158 or line 160.
\<close>

definition sendHTTPRequest :: "string \<Rightarrow> env \<Rightarrow> SlackClient \<Rightarrow> SlackMessage \<Rightarrow> result" where
  "sendHTTPRequest ok e sc slackRequest =
     (case Marshal slackRequest of
        Inl err \<Rightarrow>
          \<lparr>ret = Return (Some err), sc_after = sc, trace = [EvMarshal slackRequest]\<rparr>
      | Inr slackBody \<Rightarrow>
          (case NewRequest e ''POST'' (sc_WebHookURL sc) slackBody of
             Inl err \<Rightarrow>
               \<lparr>ret = Return (Some err), sc_after = sc,
                trace = [EvMarshal slackRequest,
                         EvNewRequest ''POST'' (sc_WebHookURL sc) slackBody]\<rparr>
           | Inr req0 \<Rightarrow>
               let req = req0\<lparr>req_header :=
                           req_header req0 @ [(''Content-Type'', ''application/json'')]\<rparr>;
                   sc1 = (if sc_TimeOut sc = 0
                          then sc\<lparr>sc_TimeOut := DefaultSlackTimeout\<rparr> else sc);
                   tr1 = [EvMarshal slackRequest,
                          EvNewRequest ''POST'' (sc_WebHookURL sc) slackBody] @
                         (if sc_TimeOut sc = 0 then [EvAssignTimeOut DefaultSlackTimeout]
                          else [])
               in
                 (case sc_client sc1 of
                    None \<Rightarrow> \<lparr>ret = Panic, sc_after = sc1, trace = tr1\<rparr>
                  | Some c \<Rightarrow>
                      (case Do e c req of
                         Inl err \<Rightarrow>
                           \<lparr>ret = Return (Some err), sc_after = sc1,
                            trace = tr1 @ [EvDo c req]\<rparr>
                       | Inr resp \<Rightarrow>
                           let buf = resp_data resp; err = resp_err resp in
                             if err \<noteq> None
                             then \<lparr>ret = Return err, sc_after = sc1,
                                   trace = tr1 @ [EvDo c req, EvReadAll]\<rparr>
                             else \<lparr>ret = Return (if buf \<noteq> ok then err else None),
                                   sc_after = sc1,
                                   trace = tr1 @ [EvDo c req, EvReadAll, EvClose]\<rparr>))))"

subsection \<open>The public send methods\<close>

definition SendSlackNotification ::
  "string \<Rightarrow> env \<Rightarrow> SlackClient \<Rightarrow> SimpleSlackRequest \<Rightarrow> result" where
  "SendSlackNotification ok e sc sr =
     (let slackRequest =
        \<lparr>msg_Username = sc_UserName sc, msg_IconEmoji = sr_IconEmoji sr,
         msg_Channel = sc_Channel sc, msg_Text = sr_Text sr, msg_Attachments = []\<rparr>
      in sendHTTPRequest ok e sc slackRequest)"

definition SendJobNotification ::
  "string \<Rightarrow> env \<Rightarrow> SlackClient \<Rightarrow> SlackJobNotification \<Rightarrow> result" where
  "SendJobNotification ok e sc job =
     (let attachment =
        zero_Attachment\<lparr>att_Color := job_Color job, att_Text := job_Details job,
                        att_TS := FormatInt10 (sint (now_unix e))\<rparr>;
          slackRequest =
        \<lparr>msg_Username = sc_UserName sc, msg_IconEmoji = job_IconEmoji job,
         msg_Channel = sc_Channel sc, msg_Text = job_Text job,
         msg_Attachments = [attachment]\<rparr>
      in sendHTTPRequest ok e sc slackRequest)"

definition funcName ::
  "string \<Rightarrow> env \<Rightarrow> SlackClient \<Rightarrow> string \<Rightarrow> string \<Rightarrow> string list \<Rightarrow> result" where
  "funcName ok e sc color message options =
     (let emoji = (if 0 < length options then options ! 0 else '':hammer_and_wrench'');
          sjn = \<lparr>job_Color = color, job_IconEmoji = emoji, job_Details = message,
                 job_Text = []\<rparr>
      in SendJobNotification ok e sc sjn)"

definition SendError :: "string \<Rightarrow> env \<Rightarrow> SlackClient \<Rightarrow> string \<Rightarrow> string list \<Rightarrow> result" where
  "SendError ok e sc message options = funcName ok e sc ''danger'' message options"

definition SendInfo :: "string \<Rightarrow> env \<Rightarrow> SlackClient \<Rightarrow> string \<Rightarrow> string list \<Rightarrow> result" where
  "SendInfo ok e sc message options = funcName ok e sc ''good'' message options"

definition SendWarning :: "string \<Rightarrow> env \<Rightarrow> SlackClient \<Rightarrow> string \<Rightarrow> string list \<Rightarrow> result" where
  "SendWarning ok e sc message options = funcName ok e sc ''warning'' message options"

subsection \<open>Callers: one send, and the sends of a client's lifetime\<close>

text \<open>
  A \<open>call\<close> names one of the five public methods with its arguments, and \<open>send\<close>
  dispatches it. They let a statement range over every public send method.
\<close>

datatype call =
    SlackNotificationCall SimpleSlackRequest
  | JobNotificationCall SlackJobNotification
  | ErrorCall string "string list"
  | InfoCall string "string list"
  | WarningCall string "string list"

fun send :: "string \<Rightarrow> env \<Rightarrow> SlackClient \<Rightarrow> call \<Rightarrow> result" where
  "send ok e sc (SlackNotificationCall sr) = SendSlackNotification ok e sc sr"
| "send ok e sc (JobNotificationCall job) = SendJobNotification ok e sc job"
| "send ok e sc (ErrorCall message options) = SendError ok e sc message options"
| "send ok e sc (InfoCall message options) = SendInfo ok e sc message options"
| "send ok e sc (WarningCall message options) = SendWarning ok e sc message options"

text \<open>
  The sends of a client's lifetime: each call starts from the client as the previous
  call left it, in an environment of its own. \<open>assignments\<close> counts the writes of
  \<open>TimeOut\<close> in the traces of such a run.
\<close>

fun sends :: "string \<Rightarrow> SlackClient \<Rightarrow> (env \<times> call) list \<Rightarrow> result list" where
  "sends ok sc [] = []"
| "sends ok sc ((e, cl) # rest) =
     (let r = send ok e sc cl in r # sends ok (sc_after r) rest)"

fun is_assign :: "event \<Rightarrow> bool" where
  "is_assign (EvAssignTimeOut d) = True"
| "is_assign _ = False"

definition assignments :: "result list \<Rightarrow> nat" where
  "assignments rs = length (filter is_assign (concat (map trace rs)))"

text \<open>The messages a call hands to the encoder, read off its trace.\<close>

fun marshalled :: "event list \<Rightarrow> SlackMessage list" where
  "marshalled [] = []"
| "marshalled (EvMarshal m # tr) = m # marshalled tr"
| "marshalled (_ # tr) = marshalled tr"

subsection \<open>The members of the wire form, before omission\<close>

text \<open>
  For the statement about omitted fields: \<open>attachment_members\<close> and
  \<open>message_members\<close> list every field of the two structs under its member name, in
  declaration order, whether set or not; \<open>json_empty\<close> holds of the values that stand
  for an unset field (null, the empty string, zero, the empty number, the empty array),
  and \<open>kept\<close> drops the members with such a value. They follow the specification's words
  and are compared with the encoder above.
\<close>

definition json_empty :: "json \<Rightarrow> bool" where
  "json_empty v =
     (v = JNull \<or> v = JString [] \<or> v = JInt 0 \<or> v = JNumber [] \<or> v = JArray [])"

definition kept :: "(string \<times> json) list \<Rightarrow> (string \<times> json) list" where
  "kept ms = filter (\<lambda>kv. \<not> json_empty (snd kv)) ms"

definition attachment_members :: "Attachment \<Rightarrow> (string \<times> json) list" where
  "attachment_members a =
     [(''color'', JString (att_Color a)),
      (''fallback'', JString (att_Fallback a)),
      (''callback_id'', JString (att_CallbackID a)),
      (''id'', JInt (sint (att_ID a))),
      (''author_id'', JString (att_AuthorID a)),
      (''author_name'', JString (att_AuthorName a)),
      (''author_subname'', JString (att_AuthorSubname a)),
      (''author_link'', JString (att_AuthorLink a)),
      (''author_icon'', JString (att_AuthorIcon a)),
      (''title'', JString (att_Title a)),
      (''title_link'', JString (att_TitleLink a)),
      (''pretext'', JString (att_Pretext a)),
      (''text'', JString (att_Text a)),
      (''image_url'', JString (att_ImageURL a)),
      (''thumb_url'', JString (att_ThumbURL a)),
      (''mrkdwn_in'', JArray (map JString (att_MarkdownIn a))),
      (''ts'', JNumber (att_TS a))]"

definition message_members :: "SlackMessage \<Rightarrow> (string \<times> json) list" where
  "message_members m =
     [(''username'', JString (msg_Username m)),
      (''icon_emoji'', JString (msg_IconEmoji m)),
      (''channel'', JString (msg_Channel m)),
      (''text'', JString (msg_Text m)),
      (''attachments'',
         JArray (map (\<lambda>a. JObject (kept (attachment_members a))) (msg_Attachments m)))]"

subsection \<open>Reading a decimal numeral\<close>

text \<open>
  The number that a string of decimal digits with an optional leading minus sign
  denotes. It is not part of slack.go: it states what the timestamp string written by
  \<open>FormatInt10\<close> means.
\<close>

definition digit_val :: "char \<Rightarrow> nat" where
  "digit_val c = of_char c - 48"

definition dec_nat :: "string \<Rightarrow> nat" where
  "dec_nat s = foldl (\<lambda>acc c. 10 * acc + digit_val c) 0 s"

definition decimal_value :: "string \<Rightarrow> int" where
  "decimal_value s =
     (if s \<noteq> [] \<and> hd s = CHR ''-'' then - int (dec_nat (tl s)) else int (dec_nat s))"

subsection \<open>Concrete inputs\<close>

text \<open>
  An endpoint that answers every request with the body \<open>body\<close> and the read error
  \<open>rerr\<close>, an endpoint that cannot be reached, a client with no explicit timeout, and
  requests for it.
\<close>

definition env_ex :: "string \<Rightarrow> error option \<Rightarrow> env" where
  "env_ex body rerr =
     \<lparr>now_unix = 1700000000,
      NewRequest = (\<lambda>m u b. Inr \<lparr>req_method = m, req_url = u, req_body = b, req_header = []\<rparr>),
      Do = (\<lambda>c r. Inr \<lparr>resp_data = body, resp_err = rerr\<rparr>)\<rparr>"

definition env_down :: env where
  "env_down =
     \<lparr>now_unix = 1700000000,
      NewRequest = (\<lambda>m u b. Inr \<lparr>req_method = m, req_url = u, req_body = b, req_header = []\<rparr>),
      Do = (\<lambda>c r. Inl (Failure ''dial tcp: i/o timeout''))\<rparr>"

definition sc_ex :: SlackClient where
  "sc_ex = \<lparr>sc_client = Some 0, sc_WebHookURL = ''https://hooks.example/T0/B0'',
            sc_UserName = ''notify'', sc_Channel = ''#ops'', sc_TimeOut = 0\<rparr>"

definition sr_ex :: SimpleSlackRequest where
  "sr_ex = \<lparr>sr_Text = ''hello'', sr_IconEmoji = '':bell:''\<rparr>"

definition job_ex :: SlackJobNotification where
  "job_ex = \<lparr>job_Color = ''good'', job_IconEmoji = '':bell:'',
             job_Details = ''build 17 passed'', job_Text = ''nightly''\<rparr>"

definition msg_ex :: SlackMessage where
  "msg_ex = \<lparr>msg_Username = [], msg_IconEmoji = [], msg_Channel = [],
             msg_Text = ''hello'', msg_Attachments = []\<rparr>"

definition sc_30 :: SlackClient where
  "sc_30 = sc_ex\<lparr>sc_TimeOut := 30 * Second\<rparr>"

definition att_ex :: Attachment where
  "att_ex = zero_Attachment\<lparr>att_Color := ''danger'', att_Text := ''disk full'',
                            att_MarkdownIn := [''text''], att_TS := ''1700000000''\<rparr>"

definition att_ex2 :: Attachment where
  "att_ex2 = zero_Attachment\<lparr>att_ID := 7, att_Title := ''second''\<rparr>"

definition msg_ex2 :: SlackMessage where
  "msg_ex2 = \<lparr>msg_Username = [], msg_IconEmoji = '':bell:'', msg_Channel = [],
              msg_Text = ''nightly'', msg_Attachments = [att_ex, att_ex2]\<rparr>"

section \<open>Properties\<close>

lemmas fixture_defs =
  env_ex_def env_down_def sc_ex_def sr_ex_def job_ex_def msg_ex_def sc_30_def

lemmas send_defs =
  SendSlackNotification_def SendJobNotification_def funcName_def SendError_def
  SendInfo_def SendWarning_def

lemmas marshal_defs =
  Marshal_def atts_member_def marshal_Attachment_def num_member_def str_member_def
  int_member_def strs_member_def zero_Attachment_def

lemmas number_defs =
  isValidNumber_def is_digit_def is_digit19_def FormatInt10_def digits10.simps digit_char_def

subsection \<open>The answer of the endpoint\<close>

text \<open>
  C1. The claim: when encoding, request construction, submission and the read of the
  body all succeed and the body is not the success marker, every public send method
  returns a non-nil error. The code does not: with the marker \<open>ok\<close> and an endpoint
  that answers \<open>invalid_payload\<close>, each of the five methods returns nil, because line
  158 returns the variable \<open>err\<close>, which is nil once line 150 has been passed.
\<close>

theorem C1_mismatch_send_methods_return_nil:
  "ret (SendSlackNotification ''ok'' (env_ex ''invalid_payload'' None) sc_ex sr_ex) = Return None \<and>
   ret (SendJobNotification ''ok'' (env_ex ''invalid_payload'' None) sc_ex job_ex) = Return None \<and>
   ret (SendError ''ok'' (env_ex ''invalid_payload'' None) sc_ex ''disk full'' []) = Return None \<and>
   ret (SendInfo ''ok'' (env_ex ''invalid_payload'' None) sc_ex ''disk full'' []) = Return None \<and>
   ret (SendWarning ''ok'' (env_ex ''invalid_payload'' None) sc_ex ''disk full'' []) = Return None"
  by (simp add: send_defs sendHTTPRequest_def marshal_defs number_defs fixture_defs Let_def)

text \<open>
  C2. In \<open>sendHTTPRequest\<close>, when encoding, request construction, submission and the
  read of the body all succeed and the body differs from the success marker, the routine
  returns the error variable left by the read, which is nil: the caller receives nil,
  the same value as when the body is the marker.
\<close>

theorem C2_mismatch_returns_prior_nil_error:
  assumes "Marshal m = Inr body"
    and "NewRequest e ''POST'' (sc_WebHookURL sc) body = Inr req0"
    and "sc_client sc = Some c"
    and "Do e c (req0\<lparr>req_header :=
           req_header req0 @ [(''Content-Type'', ''application/json'')]\<rparr>) = Inr resp"
    and "resp_err resp = None"
    and "resp_data resp \<noteq> ok"
  shows "ret (sendHTTPRequest ok e sc m) = Return (resp_err resp) \<and>
         ret (sendHTTPRequest ok e sc m) = Return None \<and>
         ret (sendHTTPRequest ok e sc m) = ret (sendHTTPRequest (resp_data resp) e sc m)"
  using assms by (simp add: sendHTTPRequest_def Let_def)

lemma Marshal_msg_ex: "Marshal msg_ex = Inr (JObject [(''text'', JString ''hello'')])"
  by (simp add: marshal_defs msg_ex_def)

theorem C2_mismatch_witness:
  "ret (sendHTTPRequest ''ok'' (env_ex ''invalid_payload'' None) sc_ex msg_ex) = Return None \<and>
   ret (sendHTTPRequest ''ok'' (env_ex ''invalid_payload'' None) sc_ex msg_ex) =
   ret (sendHTTPRequest ''invalid_payload'' (env_ex ''invalid_payload'' None) sc_ex msg_ex)"
proof -
  let ?e = "env_ex ''invalid_payload'' None"
  let ?body = "JObject [(''text'', JString ''hello'')]"
  let ?req0 = "\<lparr>req_method = ''POST'', req_url = ''https://hooks.example/T0/B0'',
                req_body = ?body, req_header = []\<rparr>"
  let ?resp = "\<lparr>resp_data = ''invalid_payload'', resp_err = None\<rparr>"
  have h1: "Marshal msg_ex = Inr ?body"
    by (rule Marshal_msg_ex)
  have h2: "NewRequest ?e ''POST'' (sc_WebHookURL sc_ex) ?body = Inr ?req0"
    by (simp add: env_ex_def sc_ex_def)
  have h3: "sc_client sc_ex = Some 0"
    by (simp add: sc_ex_def)
  have h4: "Do ?e 0 (?req0\<lparr>req_header :=
              req_header ?req0 @ [(''Content-Type'', ''application/json'')]\<rparr>) = Inr ?resp"
    by (simp add: env_ex_def)
  have h5: "resp_err ?resp = None"
    by simp
  have h6: "resp_data ?resp \<noteq> ''ok''"
    by simp
  from C2_mismatch_returns_prior_nil_error [OF h1 h2 h3 h4 h5 h6] show ?thesis
    unfolding response.select_convs by blast
qed

subsection \<open>Release of the response body\<close>

text \<open>
  C4. The claim: whenever the submission succeeds, the body is closed after reading,
  also when reading fails. The code does not: \<open>Close\<close> is deferred on line 155, after
  the return of line 151, so a failed read leaves the routine with the body open. Here
  the endpoint answers and the read fails with \<open>unexpected EOF\<close>; the trace ends with
  the read and holds no \<open>Close\<close>.
\<close>

theorem C4_read_error_leaves_body_open:
  "trace (sendHTTPRequest ''ok'' (env_ex ''o'' (Some (Failure ''unexpected EOF''))) sc_ex msg_ex) =
     [EvMarshal msg_ex,
      EvNewRequest ''POST'' ''https://hooks.example/T0/B0'' (JObject [(''text'', JString ''hello'')]),
      EvAssignTimeOut 5000000000,
      EvDo 0 \<lparr>req_method = ''POST'', req_url = ''https://hooks.example/T0/B0'',
              req_body = JObject [(''text'', JString ''hello'')],
              req_header = [(''Content-Type'', ''application/json'')]\<rparr>,
      EvReadAll] \<and>
   ret (sendHTTPRequest ''ok'' (env_ex ''o'' (Some (Failure ''unexpected EOF''))) sc_ex msg_ex) =
     Return (Some (Failure ''unexpected EOF'')) \<and>
   EvClose \<notin> set (trace (sendHTTPRequest ''ok''
                  (env_ex ''o'' (Some (Failure ''unexpected EOF''))) sc_ex msg_ex))"
  by (simp add: sendHTTPRequest_def Marshal_msg_ex env_ex_def sc_ex_def Let_def
      DefaultSlackTimeout_def Second_def)

subsection \<open>Transport errors\<close>

lemma sendHTTPRequest_Do_error:
  assumes "EvDo c req \<in> set (trace (sendHTTPRequest ok e sc m))" and "Do e c req = Inl err"
  shows "ret (sendHTTPRequest ok e sc m) = Return (Some err)"
  using assms
  by (auto simp: sendHTTPRequest_def Let_def split: sum.splits option.splits if_splits)

text \<open>
  C8. For every public send method and every message: if the call submits a request
  to the transport and the transport's \<open>Do\<close> returns an error for it, the call returns
  exactly that error.
\<close>

theorem C8_transport_error_returned_unchanged:
  assumes "EvDo c req \<in> set (trace (send ok e sc cl))" and "Do e c req = Inl err"
  shows "ret (send ok e sc cl) = Return (Some err)"
  using assms
  by (cases cl) (simp_all add: send_defs Let_def sendHTTPRequest_Do_error)

theorem C8_transport_error_witness:
  "EvDo 0 \<lparr>req_method = ''POST'', req_url = ''https://hooks.example/T0/B0'',
           req_body = JObject [(''username'', JString ''notify''),
                               (''icon_emoji'', JString '':bell:''),
                               (''channel'', JString ''#ops''),
                               (''text'', JString ''hello'')],
           req_header = [(''Content-Type'', ''application/json'')]\<rparr>
     \<in> set (trace (send ''ok'' env_down sc_ex (SlackNotificationCall sr_ex))) \<and>
   ret (send ''ok'' env_down sc_ex (SlackNotificationCall sr_ex)) =
     Return (Some (Failure ''dial tcp: i/o timeout''))"
proof -
  let ?req = "\<lparr>req_method = ''POST'', req_url = ''https://hooks.example/T0/B0'',
           req_body = JObject [(''username'', JString ''notify''),
                               (''icon_emoji'', JString '':bell:''),
                               (''channel'', JString ''#ops''),
                               (''text'', JString ''hello'')],
           req_header = [(''Content-Type'', ''application/json'')]\<rparr>"
  have sent: "EvDo 0 ?req \<in> set (trace (send ''ok'' env_down sc_ex (SlackNotificationCall sr_ex)))"
    by (simp add: send_defs sendHTTPRequest_def marshal_defs fixture_defs Let_def)
  have down: "Do env_down 0 ?req = Inl (Failure ''dial tcp: i/o timeout'')"
    by (simp add: env_down_def)
  from C8_transport_error_returned_unchanged [OF sent down] sent show ?thesis
    by simp
qed

subsection \<open>The messages the send methods build\<close>

lemma marshalled_sendHTTPRequest: "marshalled (trace (sendHTTPRequest ok e sc m)) = [m]"
  by (simp add: sendHTTPRequest_def Let_def split: sum.splits option.splits)




lemma marshalled_funcName:
  "marshalled (trace (funcName ok e sc color message options)) =
     [\<lparr>msg_Username = sc_UserName sc,
       msg_IconEmoji = (case options of [] \<Rightarrow> '':hammer_and_wrench'' | icon # _ \<Rightarrow> icon),
       msg_Channel = sc_Channel sc, msg_Text = [],
       msg_Attachments =
         [zero_Attachment\<lparr>att_Color := color, att_Text := message,
                          att_TS := FormatInt10 (sint (now_unix e))\<rparr>]\<rparr>]"
  by (cases options) (simp_all add: funcName_def SendJobNotification_def Let_def marshalled_sendHTTPRequest)

text \<open>
  C6. For every message string, \<open>SendError\<close>, \<open>SendInfo\<close> and \<open>SendWarning\<close> send the
  job notification whose color is \<open>danger\<close>, \<open>good\<close> and \<open>warning\<close>, whose details
  are the message, whose summary text is empty, and whose icon is \<open>:hammer_and_wrench\<close>
  when no option is given and the first option otherwise. The message handed to the
  encoder carries that icon, an empty text and one attachment with that color and the
  message as its text.
\<close>

theorem C6_severity_wrappers:
  "SendError ok e sc message options =
     SendJobNotification ok e sc
       \<lparr>job_Color = ''danger'',
        job_IconEmoji = (case options of [] \<Rightarrow> '':hammer_and_wrench'' | icon # _ \<Rightarrow> icon),
        job_Details = message, job_Text = []\<rparr> \<and>
   SendInfo ok e sc message options =
     SendJobNotification ok e sc
       \<lparr>job_Color = ''good'',
        job_IconEmoji = (case options of [] \<Rightarrow> '':hammer_and_wrench'' | icon # _ \<Rightarrow> icon),
        job_Details = message, job_Text = []\<rparr> \<and>
   SendWarning ok e sc message options =
     SendJobNotification ok e sc
       \<lparr>job_Color = ''warning'',
        job_IconEmoji = (case options of [] \<Rightarrow> '':hammer_and_wrench'' | icon # _ \<Rightarrow> icon),
        job_Details = message, job_Text = []\<rparr> \<and>
   map (\<lambda>r. marshalled (trace r))
     [SendError ok e sc message options, SendInfo ok e sc message options,
      SendWarning ok e sc message options] =
   map (\<lambda>color.
     [\<lparr>msg_Username = sc_UserName sc,
       msg_IconEmoji = (case options of [] \<Rightarrow> '':hammer_and_wrench'' | icon # _ \<Rightarrow> icon),
       msg_Channel = sc_Channel sc, msg_Text = [],
       msg_Attachments =
         [zero_Attachment\<lparr>att_Color := color, att_Text := message,
                          att_TS := FormatInt10 (sint (now_unix e))\<rparr>]\<rparr>])
     [''danger'', ''good'', ''warning'']"
proof -
  have built: "map (\<lambda>r. marshalled (trace r))
     [SendError ok e sc message options, SendInfo ok e sc message options,
      SendWarning ok e sc message options] =
   map (\<lambda>color.
     [\<lparr>msg_Username = sc_UserName sc,
       msg_IconEmoji = (case options of [] \<Rightarrow> '':hammer_and_wrench'' | icon # _ \<Rightarrow> icon),
       msg_Channel = sc_Channel sc, msg_Text = [],
       msg_Attachments =
         [zero_Attachment\<lparr>att_Color := color, att_Text := message,
                          att_TS := FormatInt10 (sint (now_unix e))\<rparr>]\<rparr>])
     [''danger'', ''good'', ''warning'']"
    by (simp add: SendError_def SendInfo_def SendWarning_def marshalled_funcName)
  have jobs: "funcName ok e sc color message options =
     SendJobNotification ok e sc
       \<lparr>job_Color = color,
        job_IconEmoji = (case options of [] \<Rightarrow> '':hammer_and_wrench'' | icon # _ \<Rightarrow> icon),
        job_Details = message, job_Text = []\<rparr>" for color
    by (cases options) (simp_all add: funcName_def Let_def)
  from built show ?thesis
    by (simp only: SendError_def SendInfo_def SendWarning_def jobs simp_thms)
qed

theorem C6_severity_wrappers_witness:
  "SendWarning ''ok'' (env_ex ''ok'' None) sc_ex ''low memory'' ['':bell:''] =
     SendJobNotification ''ok'' (env_ex ''ok'' None) sc_ex
       \<lparr>job_Color = ''warning'', job_IconEmoji = '':bell:'', job_Details = ''low memory'',
        job_Text = []\<rparr> \<and>
   SendError ''ok'' (env_ex ''ok'' None) sc_ex ''disk full'' [] =
     SendJobNotification ''ok'' (env_ex ''ok'' None) sc_ex
       \<lparr>job_Color = ''danger'', job_IconEmoji = '':hammer_and_wrench'',
        job_Details = ''disk full'', job_Text = []\<rparr> \<and>
   marshalled (trace (SendWarning ''ok'' (env_ex ''ok'' None) sc_ex ''low memory'' ['':bell:''])) =
     [\<lparr>msg_Username = ''notify'', msg_IconEmoji = '':bell:'', msg_Channel = ''#ops'',
       msg_Text = [],
       msg_Attachments =
         [zero_Attachment\<lparr>att_Color := ''warning'', att_Text := ''low memory'',
                          att_TS := ''1700000000''\<rparr>]\<rparr>]"
proof -
  have ts: "FormatInt10 (sint (now_unix (env_ex ''ok'' None))) = ''1700000000''"
    by (simp add: env_ex_def number_defs)
  have client: "sc_UserName sc_ex = ''notify''" "sc_Channel sc_ex = ''#ops''"
    by (simp_all add: sc_ex_def)
  note warn = C6_severity_wrappers
    [of "''ok''" "env_ex ''ok'' None" sc_ex "''low memory''" "['':bell:'']"]
  note err = C6_severity_wrappers
    [of "''ok''" "env_ex ''ok'' None" sc_ex "''disk full''" "[]"]
  have job_warn: "SendWarning ''ok'' (env_ex ''ok'' None) sc_ex ''low memory'' ['':bell:''] =
     SendJobNotification ''ok'' (env_ex ''ok'' None) sc_ex
       \<lparr>job_Color = ''warning'', job_IconEmoji = '':bell:'', job_Details = ''low memory'',
        job_Text = []\<rparr>"
    using warn [THEN conjunct2, THEN conjunct2, THEN conjunct1] by (simp only: list.case)
  have job_err: "SendError ''ok'' (env_ex ''ok'' None) sc_ex ''disk full'' [] =
     SendJobNotification ''ok'' (env_ex ''ok'' None) sc_ex
       \<lparr>job_Color = ''danger'', job_IconEmoji = '':hammer_and_wrench'',
        job_Details = ''disk full'', job_Text = []\<rparr>"
    using err [THEN conjunct1] by (simp only: list.case)
  have "map (\<lambda>r. marshalled (trace r))
     [SendError ''ok'' (env_ex ''ok'' None) sc_ex ''low memory'' ['':bell:''],
      SendInfo ''ok'' (env_ex ''ok'' None) sc_ex ''low memory'' ['':bell:''],
      SendWarning ''ok'' (env_ex ''ok'' None) sc_ex ''low memory'' ['':bell:'']] ! 2 =
    map (\<lambda>color.
     [\<lparr>msg_Username = ''notify'', msg_IconEmoji = '':bell:'', msg_Channel = ''#ops'',
       msg_Text = [],
       msg_Attachments =
         [zero_Attachment\<lparr>att_Color := color, att_Text := ''low memory'',
                          att_TS := ''1700000000''\<rparr>]\<rparr>])
     [''danger'', ''good'', ''warning''] ! 2"
    using warn [THEN conjunct2, THEN conjunct2, THEN conjunct2]
    by (simp only: list.case ts client)
  then have built: "marshalled (trace (SendWarning ''ok'' (env_ex ''ok'' None) sc_ex
      ''low memory'' ['':bell:''])) =
     [\<lparr>msg_Username = ''notify'', msg_IconEmoji = '':bell:'', msg_Channel = ''#ops'',
       msg_Text = [],
       msg_Attachments =
         [zero_Attachment\<lparr>att_Color := ''warning'', att_Text := ''low memory'',
                          att_TS := ''1700000000''\<rparr>]\<rparr>]"
    by simp
  from job_warn job_err built show ?thesis
    by (intro conjI)
qed

text \<open>
  C10. With no option, the icon of the message that \<open>SendError\<close>, \<open>SendInfo\<close> and
  \<open>SendWarning\<close> build is the literal \<open>:hammer_and_wrench\<close>: it opens with a colon and
  its last character is the letter h, not a closing colon.
\<close>

theorem C10_default_icon_literal:
  "map msg_IconEmoji (marshalled (trace (SendError ok e sc message []))) = ['':hammer_and_wrench''] \<and>
   map msg_IconEmoji (marshalled (trace (SendInfo ok e sc message []))) = ['':hammer_and_wrench''] \<and>
   map msg_IconEmoji (marshalled (trace (SendWarning ok e sc message []))) = ['':hammer_and_wrench''] \<and>
   map (\<lambda>m. (hd (msg_IconEmoji m), last (msg_IconEmoji m)))
     (marshalled (trace (SendError ok e sc message []))) = [(CHR '':'', CHR ''h'')]"
  by (simp add: SendError_def SendInfo_def SendWarning_def marshalled_funcName)


subsection \<open>The client across sends\<close>

lemma sendHTTPRequest_after:
  "sc_after (sendHTTPRequest ok e sc m) =
     (if filter is_assign (trace (sendHTTPRequest ok e sc m)) = [] then sc
      else sc\<lparr>sc_TimeOut := DefaultSlackTimeout\<rparr>)"
  by (simp add: sendHTTPRequest_def Let_def split: sum.splits option.splits)

lemma sendHTTPRequest_assign:
  "filter is_assign (trace (sendHTTPRequest ok e sc m)) = [] \<or>
   (sc_TimeOut sc = 0 \<and>
    filter is_assign (trace (sendHTTPRequest ok e sc m)) = [EvAssignTimeOut DefaultSlackTimeout])"
  by (simp add: sendHTTPRequest_def Let_def split: sum.splits option.splits)

lemma send_cases:
  obtains m where "send ok e sc cl = sendHTTPRequest ok e sc m"
  by (cases cl) (simp_all add: send_defs Let_def)

lemma send_after:
  "sc_after (send ok e sc cl) =
     (if filter is_assign (trace (send ok e sc cl)) = [] then sc
      else sc\<lparr>sc_TimeOut := DefaultSlackTimeout\<rparr>)"
proof -
  obtain m where "send ok e sc cl = sendHTTPRequest ok e sc m" by (rule send_cases)
  then show ?thesis by (simp only: sendHTTPRequest_after)
qed

lemma send_assign:
  "filter is_assign (trace (send ok e sc cl)) = [] \<or>
   (sc_TimeOut sc = 0 \<and>
    filter is_assign (trace (send ok e sc cl)) = [EvAssignTimeOut DefaultSlackTimeout])"
proof -
  obtain m where "send ok e sc cl = sendHTTPRequest ok e sc m" by (rule send_cases)
  then show ?thesis by (simp only: sendHTTPRequest_assign)
qed

lemma Default_nonzero: "DefaultSlackTimeout \<noteq> 0"
  by (simp add: DefaultSlackTimeout_def Second_def)

lemma send_nonzero:
  assumes "sc_TimeOut sc \<noteq> 0"
  shows "filter is_assign (trace (send ok e sc cl)) = []" and "sc_after (send ok e sc cl) = sc"
proof -
  from assms send_assign [of ok e sc cl]
  show none: "filter is_assign (trace (send ok e sc cl)) = []" by blast
  with send_after [of ok e sc cl] show "sc_after (send ok e sc cl) = sc" by (simp only: refl if_True)
qed

lemma sends_nonzero:
  "sc_TimeOut sc \<noteq> 0 \<Longrightarrow>
     assignments (sends ok sc cs) = 0 \<and> list_all (\<lambda>r. sc_after r = sc) (sends ok sc cs)"
proof (induction cs arbitrary: sc)
  case Nil
  show ?case by (simp add: assignments_def)
next
  case (Cons x cs)
  obtain e cl where x: "x = (e, cl)" by (cases x)
  let ?r = "send ok e sc cl"
  have none: "filter is_assign (trace ?r) = []" and same: "sc_after ?r = sc"
    by (rule send_nonzero [OF Cons.prems])+
  have unfold: "sends ok sc (x # cs) = ?r # sends ok sc cs"
    by (simp add: x Let_def same)
  have count: "assignments (?r # sends ok sc cs) = assignments (sends ok sc cs)"
    by (simp add: assignments_def none)
  from Cons.IH [OF Cons.prems] show ?case
    by (simp add: unfold count same)
qed

lemma sends_at_most_once: "assignments (sends ok sc cs) \<le> 1"
proof (induction cs arbitrary: sc)
  case Nil
  show ?case by (simp add: assignments_def)
next
  case (Cons x cs)
  obtain e cl where x: "x = (e, cl)" by (cases x)
  let ?r = "send ok e sc cl"
  have count: "assignments (sends ok sc (x # cs)) =
      length (filter is_assign (trace ?r)) + assignments (sends ok (sc_after ?r) cs)"
    by (simp add: x assignments_def Let_def)
  show ?case
  proof (cases "filter is_assign (trace ?r) = []")
    case True
    then have "length (filter is_assign (trace ?r)) = 0" by simp
    moreover have "assignments (sends ok (sc_after ?r) cs) \<le> 1" by (rule Cons.IH)
    ultimately show ?thesis using count by linarith
  next
    case False
    with send_assign [of ok e sc cl]
    have one: "filter is_assign (trace ?r) = [EvAssignTimeOut DefaultSlackTimeout]" by blast
    from False send_after [of ok e sc cl]
    have "sc_after ?r = sc\<lparr>sc_TimeOut := DefaultSlackTimeout\<rparr>" by (simp only: if_False)
    then have "sc_TimeOut (sc_after ?r) = DefaultSlackTimeout" by simp
    with Default_nonzero have "sc_TimeOut (sc_after ?r) \<noteq> 0" by simp
    from sends_nonzero [OF this] have "assignments (sends ok (sc_after ?r) cs) = 0" by blast
    moreover from one have "length (filter is_assign (trace ?r)) = 1" by simp
    ultimately show ?thesis using count by linarith
  qed
qed

text \<open>
  C3. A send leaves every field of the client but \<open>TimeOut\<close> as it was. It changes
  \<open>TimeOut\<close> only from zero, and then to the default of five seconds. Over any run of
  sends of one client the default is assigned at most once, and a client whose
  \<open>TimeOut\<close> is not zero is left unchanged by every send of the run.
\<close>

theorem C3_timeout_is_the_only_write:
  "sc_client (sc_after (send ok e sc cl)) = sc_client sc \<and>
   sc_WebHookURL (sc_after (send ok e sc cl)) = sc_WebHookURL sc \<and>
   sc_UserName (sc_after (send ok e sc cl)) = sc_UserName sc \<and>
   sc_Channel (sc_after (send ok e sc cl)) = sc_Channel sc \<and>
   (sc_TimeOut (sc_after (send ok e sc cl)) \<noteq> sc_TimeOut sc \<longrightarrow>
      sc_TimeOut sc = 0 \<and> sc_TimeOut (sc_after (send ok e sc cl)) = DefaultSlackTimeout) \<and>
   DefaultSlackTimeout = 5000000000 \<and>
   assignments (sends ok sc cs) \<le> 1 \<and>
   (sc_TimeOut sc \<noteq> 0 \<longrightarrow>
      assignments (sends ok sc cs) = 0 \<and> list_all (\<lambda>r. sc_after r = sc) (sends ok sc cs))"
proof -
  let ?r = "send ok e sc cl"
  have fields: "sc_client (sc_after ?r) = sc_client sc \<and>
      sc_WebHookURL (sc_after ?r) = sc_WebHookURL sc \<and>
      sc_UserName (sc_after ?r) = sc_UserName sc \<and>
      sc_Channel (sc_after ?r) = sc_Channel sc"
    by (cases "filter is_assign (trace ?r) = []") (simp_all add: send_after [of ok e sc cl])
  have timeout: "sc_TimeOut (sc_after ?r) \<noteq> sc_TimeOut sc \<longrightarrow>
      sc_TimeOut sc = 0 \<and> sc_TimeOut (sc_after ?r) = DefaultSlackTimeout"
  proof (cases "filter is_assign (trace ?r) = []")
    case True
    then show ?thesis by (simp add: send_after [of ok e sc cl])
  next
    case False
    with send_assign [of ok e sc cl] have "sc_TimeOut sc = 0" by blast
    with False show ?thesis by (simp add: send_after [of ok e sc cl])
  qed
  have default: "DefaultSlackTimeout = 5000000000"
    by (simp add: DefaultSlackTimeout_def Second_def)
  have kept: "sc_TimeOut sc \<noteq> 0 \<longrightarrow>
      assignments (sends ok sc cs) = 0 \<and> list_all (\<lambda>r. sc_after r = sc) (sends ok sc cs)"
    using sends_nonzero by blast
  from fields timeout default sends_at_most_once [of ok sc cs] kept show ?thesis
    by blast
qed


theorem C3_timeout_witness:
  "sc_TimeOut (sc_after (send ''ok'' (env_ex ''ok'' None) sc_ex (ErrorCall ''disk full'' []))) =
     5000000000 \<and>
   assignments (sends ''ok'' sc_ex
     [(env_ex ''ok'' None, ErrorCall ''disk full'' []),
      (env_down, SlackNotificationCall sr_ex)]) \<le> 1 \<and>
   assignments (sends ''ok'' sc_30
     [(env_ex ''ok'' None, ErrorCall ''disk full'' []),
      (env_down, SlackNotificationCall sr_ex)]) = 0 \<and>
   list_all (\<lambda>r. sc_TimeOut (sc_after r) = 30000000000) (sends ''ok'' sc_30
     [(env_ex ''ok'' None, ErrorCall ''disk full'' []),
      (env_down, SlackNotificationCall sr_ex)])"
proof -
  let ?cs = "[(env_ex ''ok'' None, ErrorCall ''disk full'' []),
              (env_down, SlackNotificationCall sr_ex)]"
  have changed: "sc_TimeOut (sc_after (send ''ok'' (env_ex ''ok'' None) sc_ex
      (ErrorCall ''disk full'' []))) \<noteq> sc_TimeOut sc_ex"
    by (simp add: send_defs sendHTTPRequest_def marshal_defs number_defs fixture_defs Let_def
        DefaultSlackTimeout_def Second_def)
  have explicit: "sc_TimeOut sc_30 \<noteq> 0"
    by (simp add: sc_30_def sc_ex_def Second_def)
  from C3_timeout_is_the_only_write
    [of "''ok''" "env_ex ''ok'' None" sc_ex "ErrorCall ''disk full'' []" ?cs] changed
  have first: "sc_TimeOut (sc_after (send ''ok'' (env_ex ''ok'' None) sc_ex
      (ErrorCall ''disk full'' []))) = 5000000000"
    and once: "assignments (sends ''ok'' sc_ex ?cs) \<le> 1"
    by simp_all
  from C3_timeout_is_the_only_write
    [of "''ok''" "env_ex ''ok'' None" sc_30 "ErrorCall ''disk full'' []" ?cs] explicit
  have none: "assignments (sends ''ok'' sc_30 ?cs) = 0"
    and same: "list_all (\<lambda>r. sc_after r = sc_30) (sends ''ok'' sc_30 ?cs)"
    by simp_all
  from same have "list_all (\<lambda>r. sc_TimeOut (sc_after r) = 30000000000) (sends ''ok'' sc_30 ?cs)"
    by (rule list.pred_mono_strong) (simp add: sc_30_def sc_ex_def Second_def)
  with first once none show ?thesis
    by blast
qed

subsection \<open>The timestamp of a job notification\<close>

lemma digit_cases:
  assumes "d < (10::nat)"
  obtains "d = 0" | "d = 1" | "d = 2" | "d = 3" | "d = 4" | "d = 5" | "d = 6" | "d = 7"
    | "d = 8" | "d = 9"
proof -
  from assms have "d = 0 \<or> d = 1 \<or> d = 2 \<or> d = 3 \<or> d = 4 \<or> d = 5 \<or> d = 6 \<or> d = 7 \<or>
      d = 8 \<or> d = 9"
    by arith
  with that show thesis by blast
qed

lemma digit_char_props:
  assumes "d < 10"
  shows "digit_val (digit_char d) = d" and "is_digit (digit_char d)"
    and "digit_char d \<noteq> CHR ''-''"
    and "digit_char d = CHR ''0'' \<longleftrightarrow> d = 0"
    and "d \<noteq> 0 \<Longrightarrow> is_digit19 (digit_char d)"
  using assms
  by (rule digit_cases; simp add: digit_char_def digit_val_def is_digit_def is_digit19_def)+

lemma digits10_nonempty: "digits10 n \<noteq> []"
  by (subst digits10.simps) simp

lemma digits10_all_digits: "list_all is_digit (digits10 n)"
proof (induction n rule: digits10.induct)
  case (1 n)
  show ?case
  proof (cases "n < 10")
    case True
    then show ?thesis by (subst digits10.simps) (simp add: digit_char_props)
  next
    case False
    with "1.IH" have "list_all is_digit (digits10 (n div 10))" by simp
    moreover have "is_digit (digit_char (n mod 10))" by (simp add: digit_char_props)
    ultimately show ?thesis using False by (subst digits10.simps) simp
  qed
qed

lemma dec_nat_snoc: "dec_nat (ds @ [c]) = 10 * dec_nat ds + digit_val c"
  by (simp add: dec_nat_def)

lemma dec_nat_digits10: "dec_nat (digits10 n) = n"
proof (induction n rule: digits10.induct)
  case (1 n)
  show ?case
  proof (cases "n < 10")
    case True
    then show ?thesis
      by (subst digits10.simps) (simp add: dec_nat_def digit_char_props)
  next
    case False
    with "1.IH" have "dec_nat (digits10 (n div 10)) = n div 10" by simp
    then have "dec_nat (digits10 (n div 10) @ [digit_char (n mod 10)]) = 10 * (n div 10) + n mod 10"
      by (simp add: dec_nat_snoc digit_char_props)
    with False show ?thesis by (subst digits10.simps) simp
  qed
qed

lemma hd_digits10_zero: "hd (digits10 n) = CHR ''0'' \<longleftrightarrow> n = 0"
proof (induction n rule: digits10.induct)
  case (1 n)
  show ?case
  proof (cases "n < 10")
    case True
    then show ?thesis by (subst digits10.simps) (simp add: digit_char_props)
  next
    case False
    with "1.IH" have "hd (digits10 (n div 10)) = CHR ''0'' \<longleftrightarrow> n div 10 = 0" by simp
    moreover from False have "n div 10 \<noteq> 0" by simp
    ultimately have "hd (digits10 (n div 10)) \<noteq> CHR ''0''" by simp
    with False digits10_nonempty [of "n div 10"] show ?thesis
      by (subst digits10.simps) simp
  qed
qed

lemma digits10_0: "digits10 0 = ''0''"
  by (simp add: digits10.simps digit_char_def)

lemma hd_digits10_digit: "is_digit (hd (digits10 n))"
  using digits10_all_digits [of n] digits10_nonempty [of n]
  by (cases "digits10 n") simp_all

lemma dropWhile_all: "list_all P xs \<Longrightarrow> dropWhile P xs = []"
  by (induction xs) simp_all

lemma is_digit_not_minus: "is_digit c \<Longrightarrow> c \<noteq> CHR ''-''"
  by (auto simp: is_digit_def)

lemma is_digit_19: "is_digit c \<Longrightarrow> c \<noteq> CHR ''0'' \<Longrightarrow> is_digit19 c"
proof -
  assume d: "is_digit c" and z: "c \<noteq> CHR ''0''"
  have "of_char c \<noteq> (48::nat)"
  proof
    assume "of_char c = (48::nat)"
    then have "(of_char c :: nat) = of_char CHR ''0''" by simp
    then have "c = CHR ''0''" by (simp only: of_char_eq_iff)
    with z show False by simp
  qed
  with d show ?thesis by (simp add: is_digit_def is_digit19_def)
qed

lemma valid_digits:
  assumes ne: "ds \<noteq> []" and all: "list_all is_digit ds"
    and lead: "hd ds = CHR ''0'' \<Longrightarrow> tl ds = []"
  shows "isValidNumber ds" and "isValidNumber (CHR ''-'' # ds)"
proof -
  from ne all have d: "is_digit (hd ds)" and t: "list_all is_digit (tl ds)"
    by (cases ds; simp)+
  from d have nm: "hd ds \<noteq> CHR ''-''" by (rule is_digit_not_minus)
  have core: "hd ds = CHR ''0'' \<or> is_digit19 (hd ds)"
    using d is_digit_19 by blast
  have rest: "(if hd ds = CHR ''0'' then tl ds else dropWhile is_digit (tl ds)) = []"
    using lead t by (simp add: dropWhile_all)
  show "isValidNumber ds"
    using ne nm core rest by (simp add: isValidNumber_def Let_def)
  show "isValidNumber (CHR ''-'' # ds)"
    using ne core rest by (simp add: isValidNumber_def Let_def)
qed

lemma tl_digits10_zero: "hd (digits10 n) = CHR ''0'' \<Longrightarrow> tl (digits10 n) = []"
  by (simp add: hd_digits10_zero digits10_0)

lemma FormatInt10_valid: "isValidNumber (FormatInt10 i)"
  unfolding FormatInt10_def
  using valid_digits [OF digits10_nonempty digits10_all_digits tl_digits10_zero]
  by simp

lemma decimal_value_FormatInt10: "decimal_value (FormatInt10 i) = i"
proof (cases "i < 0")
  case True
  then show ?thesis
    by (simp add: FormatInt10_def decimal_value_def dec_nat_digits10)
next
  case False
  have "hd (digits10 (nat i)) \<noteq> CHR ''-''"
    using hd_digits10_digit by (rule is_digit_not_minus)
  with False show ?thesis
    by (simp add: FormatInt10_def decimal_value_def dec_nat_digits10)
qed

text \<open>
  C5. For every job, \<open>SendJobNotification\<close> hands the encoder exactly one message; its
  text is the job's summary text and it carries exactly one attachment, whose color and
  text are the job's color and details and whose timestamp is the clock reading of the
  call, \<open>time.Now().Unix()\<close>, written in decimal: a number literal that denotes the
  reading, and so lies between any two times that bracket the reading.
\<close>

theorem C5_job_notification_message:
  assumes "t_before \<le> sint (now_unix e)" and "sint (now_unix e) \<le> t_after"
  shows "\<exists>ts. marshalled (trace (SendJobNotification ok e sc job)) =
           [\<lparr>msg_Username = sc_UserName sc, msg_IconEmoji = job_IconEmoji job,
             msg_Channel = sc_Channel sc, msg_Text = job_Text job,
             msg_Attachments =
               [zero_Attachment\<lparr>att_Color := job_Color job, att_Text := job_Details job,
                                att_TS := ts\<rparr>]\<rparr>] \<and>
           ts = FormatInt10 (sint (now_unix e)) \<and>
           isValidNumber ts \<and>
           decimal_value ts = sint (now_unix e) \<and>
           t_before \<le> decimal_value ts \<and> decimal_value ts \<le> t_after"
  using assms
  by (simp add: SendJobNotification_def Let_def marshalled_sendHTTPRequest
      FormatInt10_valid decimal_value_FormatInt10)

theorem C5_job_notification_witness:
  "marshalled (trace (SendJobNotification ''ok'' (env_ex ''ok'' None) sc_ex job_ex)) =
     [\<lparr>msg_Username = ''notify'', msg_IconEmoji = '':bell:'', msg_Channel = ''#ops'',
       msg_Text = ''nightly'',
       msg_Attachments =
         [zero_Attachment\<lparr>att_Color := ''good'', att_Text := ''build 17 passed'',
                          att_TS := ''1700000000''\<rparr>]\<rparr>] \<and>
   isValidNumber ''1700000000'' \<and>
   decimal_value ''1700000000'' = 1700000000"
proof -
  let ?e = "env_ex ''ok'' None"
  have now: "sint (now_unix ?e) = 1700000000"
    by (simp add: env_ex_def)
  have ts: "FormatInt10 1700000000 = ''1700000000''"
    by (simp add: number_defs)
  have before: "1699999999 \<le> sint (now_unix ?e)" and after: "sint (now_unix ?e) \<le> 1700000001"
    by (simp_all add: now)
  from C5_job_notification_message [OF before after, of "''ok''" sc_ex job_ex] show ?thesis
    by (simp add: now ts sc_ex_def job_ex_def)
qed

subsection \<open>Omitted fields and the order of attachments\<close>

lemma kept_Cons2: "kept (x # y # ys) = kept [x] @ kept (y # ys)"
  by (simp add: kept_def)

lemma kept_str: "kept [(k, JString s)] = str_member k s"
  by (simp add: kept_def json_empty_def str_member_def)

lemma kept_int: "kept [(k, JInt (sint i))] = int_member k i"
  by (simp add: kept_def json_empty_def int_member_def signed_eq_0_iff)

lemma kept_strs: "kept [(k, JArray (map JString ss))] = strs_member k ss"
  by (simp add: kept_def json_empty_def strs_member_def)

lemma kept_num: "num_member k n = Inr ts \<Longrightarrow> kept [(k, JNumber n)] = ts"
  by (auto simp: kept_def json_empty_def num_member_def split: if_splits)

lemma kept_attachment_members:
  "kept (attachment_members a) =
     str_member ''color'' (att_Color a) @
     str_member ''fallback'' (att_Fallback a) @
     str_member ''callback_id'' (att_CallbackID a) @
     int_member ''id'' (att_ID a) @
     str_member ''author_id'' (att_AuthorID a) @
     str_member ''author_name'' (att_AuthorName a) @
     str_member ''author_subname'' (att_AuthorSubname a) @
     str_member ''author_link'' (att_AuthorLink a) @
     str_member ''author_icon'' (att_AuthorIcon a) @
     str_member ''title'' (att_Title a) @
     str_member ''title_link'' (att_TitleLink a) @
     str_member ''pretext'' (att_Pretext a) @
     str_member ''text'' (att_Text a) @
     str_member ''image_url'' (att_ImageURL a) @
     str_member ''thumb_url'' (att_ThumbURL a) @
     strs_member ''mrkdwn_in'' (att_MarkdownIn a) @
     kept [(''ts'', JNumber (att_TS a))]"
  unfolding attachment_members_def
  by (simp only: kept_Cons2 kept_str kept_int kept_strs)

lemma marshal_Attachment_kept:
  assumes "marshal_Attachment a = Inr j"
  shows "j = JObject (kept (attachment_members a))"
proof -
  from assms obtain ts where ts: "num_member ''ts'' (att_TS a) = Inr ts"
    by (auto simp: marshal_Attachment_def split: sum.splits)
  from kept_num [OF ts] have "kept [(''ts'', JNumber (att_TS a))] = ts" .
  with assms ts show ?thesis
    by (simp add: marshal_Attachment_def kept_attachment_members)
qed

lemma marshal_Attachments_map:
  "marshal_Attachments as = Inr js \<Longrightarrow>
     js = map (\<lambda>a. JObject (kept (attachment_members a))) as"
proof (induction as arbitrary: js)
  case Nil
  then show ?case by simp
next
  case (Cons a as)
  from Cons.prems obtain j js' where j: "marshal_Attachment a = Inr j"
    and js': "marshal_Attachments as = Inr js'" and js: "js = j # js'"
    by (auto split: sum.splits)
  from marshal_Attachment_kept [OF j] Cons.IH [OF js'] js show ?case
    by simp
qed

lemma kept_atts:
  assumes "atts_member k as = Inr ms"
  shows "kept [(k, JArray (map (\<lambda>a. JObject (kept (attachment_members a))) as))] = ms"
proof (cases "as = []")
  case True
  with assms show ?thesis
    by (simp add: atts_member_def kept_def json_empty_def)
next
  case False
  with assms obtain js where js: "marshal_Attachments as = Inr js" and ms: "ms = [(k, JArray js)]"
    by (auto simp: atts_member_def split: sum.splits)
  from marshal_Attachments_map [OF js] False ms show ?thesis
    by (simp add: kept_def json_empty_def)
qed

lemma Marshal_kept:
  assumes "Marshal m = Inr j"
  shows "j = JObject (kept (message_members m))"
proof -
  from assms obtain ms where ms: "atts_member ''attachments'' (msg_Attachments m) = Inr ms"
    by (auto simp: Marshal_def split: sum.splits)
  have "kept (message_members m) =
      str_member ''username'' (msg_Username m) @ str_member ''icon_emoji'' (msg_IconEmoji m) @
      str_member ''channel'' (msg_Channel m) @ str_member ''text'' (msg_Text m) @
      kept [(''attachments'',
        JArray (map (\<lambda>a. JObject (kept (attachment_members a))) (msg_Attachments m)))]"
    unfolding message_members_def by (simp only: kept_Cons2 kept_str)
  with assms ms kept_atts [OF ms] show ?thesis
    by (simp add: Marshal_def)
qed

lemma kept_no_placeholder: "list_all (\<lambda>kv. \<not> json_empty (snd kv)) (kept ms)"
  by (simp add: kept_def list_all_iff)

text \<open>
  C7. For every message that is encoded, the wire form is the object of exactly those
  members whose field is set, in declaration order: every field that is empty (empty
  string, zero, empty slice) is omitted, no member is null or empty, and the same holds
  of every attachment. The member \<open>attachments\<close> is the array of the encoded
  attachments in the order of the message.
\<close>

theorem C7_empty_fields_omitted_order_kept:
  assumes "Marshal m = Inr j"
  shows "j = JObject (kept (message_members m)) \<and>
         list_all (\<lambda>kv. \<not> json_empty (snd kv)) (kept (message_members m)) \<and>
         list_all (\<lambda>a. list_all (\<lambda>kv. \<not> json_empty (snd kv)) (kept (attachment_members a)))
           (msg_Attachments m) \<and>
         (msg_Attachments m \<noteq> [] \<longrightarrow>
            map_of (kept (message_members m)) ''attachments'' =
              Some (JArray (map (\<lambda>a. JObject (kept (attachment_members a))) (msg_Attachments m))))"
proof -
  have members: "list_all (\<lambda>a. list_all (\<lambda>kv. \<not> json_empty (snd kv)) (kept (attachment_members a)))
      (msg_Attachments m)"
    by (simp add: list_all_iff kept_def)
  have atts: "msg_Attachments m \<noteq> [] \<longrightarrow>
      map_of (kept (message_members m)) ''attachments'' =
        Some (JArray (map (\<lambda>a. JObject (kept (attachment_members a))) (msg_Attachments m)))"
    by (simp add: message_members_def kept_def json_empty_def)
  from Marshal_kept [OF assms] kept_no_placeholder members atts show ?thesis
    by blast
qed

lemma Marshal_msg_ex2:
  "Marshal msg_ex2 =
     Inr (JObject
       [(''icon_emoji'', JString '':bell:''),
        (''text'', JString ''nightly''),
        (''attachments'',
           JArray
             [JObject [(''color'', JString ''danger''), (''text'', JString ''disk full''),
                       (''mrkdwn_in'', JArray [JString ''text'']),
                       (''ts'', JNumber ''1700000000'')],
              JObject [(''id'', JInt 7), (''title'', JString ''second'')]])])"
  by (simp add: msg_ex2_def att_ex_def att_ex2_def marshal_defs isValidNumber_def
      is_digit_def is_digit19_def Let_def)

theorem C7_empty_fields_witness:
  "Marshal msg_ex2 =
     Inr (JObject
       [(''icon_emoji'', JString '':bell:''),
        (''text'', JString ''nightly''),
        (''attachments'',
           JArray
             [JObject [(''color'', JString ''danger''), (''text'', JString ''disk full''),
                       (''mrkdwn_in'', JArray [JString ''text'']),
                       (''ts'', JNumber ''1700000000'')],
              JObject [(''id'', JInt 7), (''title'', JString ''second'')]])]) \<and>
   kept (message_members msg_ex2) =
       [(''icon_emoji'', JString '':bell:''),
        (''text'', JString ''nightly''),
        (''attachments'',
           JArray
             [JObject [(''color'', JString ''danger''), (''text'', JString ''disk full''),
                       (''mrkdwn_in'', JArray [JString ''text'']),
                       (''ts'', JNumber ''1700000000'')],
              JObject [(''id'', JInt 7), (''title'', JString ''second'')]])] \<and>
   msg_Attachments msg_ex2 \<noteq> [] \<and>
   map_of (kept (message_members msg_ex2)) ''attachments'' =
     Some (JArray (map (\<lambda>a. JObject (kept (attachment_members a))) [att_ex, att_ex2]))"
proof -
  have atts: "msg_Attachments msg_ex2 = [att_ex, att_ex2]"
    by (simp add: msg_ex2_def)
  from C7_empty_fields_omitted_order_kept [OF Marshal_msg_ex2] Marshal_msg_ex2 show ?thesis
    by (simp add: atts)
qed

end
